theory Spec2Isabelle
  imports Main "HOL-Library.Sublist"
begin

section \<open>The scripting-host bridge of Source/lua/lua.cpp\<close>

text \<open>
  The file embeds a Lua interpreter through the sol2 binding library. Neither the
  interpreter nor sol2 is part of the file: what a chunk computes, what a script
  function does when called, how a value prints and what a nested global path holds
  are given by the runtime, which every function below therefore takes as a
  parameter (\<open>rt\<close>). The asset system is a second parameter (\<open>fs\<close>), the build flag
  \<open>_DEBUG\<close> a third. The functions of lua.cpp are translated statement by statement
  over these parameters; the process-wide variable \<open>luaState\<close> and the log written by
  \<open>LogError\<close> are the explicit state \<open>host\<close>. \<open>LuaPrint\<close> appears only as
  the name bound to \<open>print\<close>; \<open>Sol2DebugPrintStack\<close> and \<open>Sol2DebugPrintSection\<close>,
  which write debug entries only, are left out.
\<close>

subsection \<open>Values and results of the runtime (types of sol2)\<close>

text \<open>The enumeration \<open>sol::lib\<close> of standard libraries that \<open>open_libraries\<close> accepts.\<close>

datatype lua_lib =
    Lib_base | Lib_package | Lib_coroutine | Lib_string | Lib_os | Lib_math | Lib_table
  | Lib_debug | Lib_bit32 | Lib_io | Lib_ffi | Lib_jit | Lib_utf8

text \<open>The enumeration \<open>sol::type\<close>.\<close>

datatype sol_type =
    T_none | T_lua_nil | T_string | T_number | T_thread | T_boolean | T_function
  | T_userdata | T_lightuserdata | T_table

text \<open>
  A Lua value as the host sees it on the stack. Tables, functions, userdata and threads
  are references, told apart by a number. Floating-point numbers are left out: no
  function of the file looks inside a number.
\<close>

datatype lua_value =
    LNone | LNil | LBoolean bool | LInteger int | LString string
  | LTable nat | LFunction nat | LUserdata nat | LThread nat

fun type_of :: "lua_value \<Rightarrow> sol_type" where
  "type_of LNone = T_none"
| "type_of LNil = T_lua_nil"
| "type_of (LBoolean b) = T_boolean"
| "type_of (LInteger i) = T_number"
| "type_of (LString s) = T_string"
| "type_of (LTable n) = T_table"
| "type_of (LFunction n) = T_function"
| "type_of (LUserdata n) = T_userdata"
| "type_of (LThread n) = T_thread"

text \<open>The enumeration \<open>sol::call_status\<close>.\<close>

datatype call_status =
    Status_ok | Status_yielded | Status_runtime | Status_memory | Status_handler
  | Status_gc | Status_syntax | Status_file

text \<open>
  \<open>sol::protected_function_result\<close>: the status of a protected execution and the value
  at the result's stack index, which is the returned value when the execution succeeded
  and the error payload when it failed. \<open>get_type()\<close>, \<open>get<std::string>()\<close> and the
  conversion to \<open>sol::stack_object\<close> all read that one value.
\<close>

record protected_function_result =
  status :: call_status
  object :: lua_value

definition valid :: "protected_function_result \<Rightarrow> bool" where
  "valid result \<longleftrightarrow> status result = Status_ok \<or> status result = Status_yielded"

definition get_type :: "protected_function_result \<Rightarrow> sol_type" where
  "get_type result = type_of (object result)"

text \<open>\<open>result.get<std::string>()\<close>; the file calls it on a value of type string only.\<close>

definition get_string :: "protected_function_result \<Rightarrow> string" where
  "get_string result = (case object result of LString s \<Rightarrow> s | _ \<Rightarrow> [])"

subsection \<open>The runtime as a parameter\<close>

text \<open>What the host registers in the runtime: a native function, a macro of the Lua
  headers, or the table a module of the host builds, each by its C++ name.\<close>

datatype binding = NativeFunction string | Macro string | Module string

text \<open>The calls the host makes on one \<open>sol::state\<close>, for the record kept in \<open>history\<close>.\<close>

datatype sol_call =
    NewState binding
  | OpenLibraries "lua_lib list"
  | SetGlobals "(string \<times> binding) list"
  | CreateNamedTable string "(string \<times> binding) list"
  | SafeScript string
  | Invoke lua_value "lua_value list"

text \<open>
  The interpreter, over its own state \<open>'vm\<close>. Executing a chunk and calling a function
  are protected executions: they return a \<open>protected_function_result\<close> and the new
  state, or \<open>None\<close> when the script never returns. The other operations are the
  constructor, the setters and the read-only queries of \<open>sol::state\<close> the file uses.
\<close>

record 'vm runtime =
  rt_new :: "binding \<Rightarrow> 'vm"
  rt_open :: "lua_lib \<Rightarrow> 'vm \<Rightarrow> 'vm"
  rt_set :: "string \<Rightarrow> binding \<Rightarrow> 'vm \<Rightarrow> 'vm"
  rt_named_table :: "string \<Rightarrow> (string \<times> binding) list \<Rightarrow> 'vm \<Rightarrow> 'vm"
  rt_script :: "string \<Rightarrow> 'vm \<Rightarrow> (protected_function_result \<times> 'vm) option"
  rt_call :: "lua_value \<Rightarrow> lua_value list \<Rightarrow> 'vm \<Rightarrow> (protected_function_result \<times> 'vm) option"
  rt_traverse :: "'vm \<Rightarrow> string list \<Rightarrow> lua_value option"
  rt_callable :: "'vm \<Rightarrow> lua_value \<Rightarrow> bool"
  rt_to_string :: "'vm \<Rightarrow> lua_value \<Rightarrow> string"

text \<open>
  One \<open>sol::state\<close>: the interpreter's state and the calls the host has made on it, in
  order. Scripts do not see \<open>history\<close>; it is what makes "called once" and "opened
  exactly these libraries" statements about the host.
\<close>

record 'vm sol_state =
  vm :: 'vm
  history :: "sol_call list"

definition new_state :: "'vm runtime \<Rightarrow> binding \<Rightarrow> 'vm sol_state" where
  "new_state rt panic = \<lparr>vm = rt_new rt panic, history = [NewState panic]\<rparr>"

definition open_libraries :: "'vm runtime \<Rightarrow> lua_lib list \<Rightarrow> 'vm sol_state \<Rightarrow> 'vm sol_state" where
  "open_libraries rt libs lua =
     \<lparr>vm = fold (rt_open rt) libs (vm lua), history = history lua @ [OpenLibraries libs]\<rparr>"

definition set_globals :: "'vm runtime \<Rightarrow> (string \<times> binding) list \<Rightarrow> 'vm sol_state \<Rightarrow> 'vm sol_state" where
  "set_globals rt kvs lua =
     \<lparr>vm = fold (\<lambda>(k, v). rt_set rt k v) kvs (vm lua), history = history lua @ [SetGlobals kvs]\<rparr>"

definition create_named_table ::
  "'vm runtime \<Rightarrow> string \<Rightarrow> (string \<times> binding) list \<Rightarrow> 'vm sol_state \<Rightarrow> 'vm sol_state" where
  "create_named_table rt name kvs lua =
     \<lparr>vm = rt_named_table rt name kvs (vm lua), history = history lua @ [CreateNamedTable name kvs]\<rparr>"

definition safe_script ::
  "'vm runtime \<Rightarrow> string \<Rightarrow> 'vm sol_state \<Rightarrow> (protected_function_result \<times> 'vm sol_state) option" where
  "safe_script rt code lua =
     (case rt_script rt code (vm lua) of
        None \<Rightarrow> None
      | Some (result, v) \<Rightarrow> Some (result, \<lparr>vm = v, history = history lua @ [SafeScript code]\<rparr>))"

text \<open>\<open>fn()\<close> on a \<open>sol::protected_function\<close>: a protected call with the given arguments.\<close>

definition call_function ::
  "'vm runtime \<Rightarrow> lua_value \<Rightarrow> lua_value list \<Rightarrow> 'vm sol_state
     \<Rightarrow> (protected_function_result \<times> 'vm sol_state) option" where
  "call_function rt fn args lua =
     (case rt_call rt fn args (vm lua) of
        None \<Rightarrow> None
      | Some (result, v) \<Rightarrow> Some (result, \<lparr>vm = v, history = history lua @ [Invoke fn args]\<rparr>))"

definition traverse_get :: "'vm runtime \<Rightarrow> 'vm sol_state \<Rightarrow> string list \<Rightarrow> lua_value option" where
  "traverse_get rt lua keys = rt_traverse rt (vm lua) keys"

text \<open>\<open>object.is<sol::protected_function>()\<close>.\<close>

definition is_protected_function :: "'vm runtime \<Rightarrow> 'vm sol_state \<Rightarrow> lua_value \<Rightarrow> bool" where
  "is_protected_function rt lua v = rt_callable rt (vm lua) v"

text \<open>\<open>sol::utility::to_string\<close>.\<close>

definition to_string :: "'vm runtime \<Rightarrow> 'vm sol_state \<Rightarrow> lua_value \<Rightarrow> string" where
  "to_string rt lua v = rt_to_string rt (vm lua) v"

subsection \<open>The asset system as a parameter (engine/assets.hpp)\<close>

record AssetRef =
  ref_path :: string
  ref_ok :: bool
  ref_size :: nat

text \<open>\<open>handle_read h n\<close> is \<open>h.read(buffer, n)\<close>: the \<open>n\<close> bytes now in the buffer, or
  \<open>None\<close> when the read fails.\<close>

record AssetHandle =
  handle_ok :: bool
  handle_read :: "nat \<Rightarrow> string option"

record assets =
  FindAsset :: "string \<Rightarrow> AssetRef"
  OpenAsset :: "AssetRef \<Rightarrow> AssetHandle"

subsection \<open>The host state and the log\<close>

datatype severity = Error | Debug

datatype halt =
    EmptyOptional  \<comment> \<open>\<open>*luaState\<close> on an empty optional: undefined behaviour\<close>
  | Hangs          \<comment> \<open>the script never returns, and so neither does the caller\<close>

text \<open>
  The host: the optional runtime, and the entries the functions of this file have written
  to the log, oldest first. What a script prints or logs on its own account, through the
  bindings, belongs to the runtime and is not recorded here.
\<close>

record 'vm host =
  luaState :: "'vm sol_state option"
  logged :: "(severity \<times> string) list"

text \<open>
  The text a format string and its arguments give in the fmt library, for the format
  strings of this file: each replacement field \<open>{}\<close> takes the next argument, every
  other character is copied, and arguments left over are dropped. (A field with no
  argument left is an error in fmt; no call of the file has one, and it prints nothing
  here.)
\<close>

fun fmt_format :: "string \<Rightarrow> string list \<Rightarrow> string" where
  "fmt_format (c # d # cs) args =
     (if c = CHR ''{'' \<and> d = CHR ''}''
      then (case args of [] \<Rightarrow> fmt_format cs [] | a # as \<Rightarrow> a @ fmt_format cs as)
      else c # fmt_format (d # cs) args)"
| "fmt_format cs args = cs"

text \<open>
  Modelled from the spec: \<open>LogError\<close> (utils/log.hpp) is not among the sources. The spec
  has it as logging at error severity; an entry here is the severity and the formatted
  text, appended to the log.
\<close>

definition LogError :: "string \<Rightarrow> string list \<Rightarrow> 'vm host \<Rightarrow> 'vm host" where
  "LogError f args h = h\<lparr>logged := logged h @ [(Error, fmt_format f args)]\<rparr>"

definition value_or :: "'a option \<Rightarrow> 'a \<Rightarrow> 'a" where
  "value_or opt d = (case opt of None \<Rightarrow> d | Some x \<Rightarrow> x)"

subsection \<open>The functions of lua.cpp\<close>

definition CheckResult :: "protected_function_result \<Rightarrow> 'vm host \<Rightarrow> bool \<times> 'vm host" where
  "CheckResult result h =
     (let v = valid result in
      if \<not> v then
        (if get_type result = T_string
         then (v, LogError ''Lua error: {}'' [get_string result] h)
         else (v, LogError ''Unknown Lua error'' [] h))
      else (v, h))"

definition RunScript :: "'vm runtime \<Rightarrow> assets \<Rightarrow> string \<Rightarrow> 'vm host \<Rightarrow> halt + 'vm host" where
  "RunScript rt fs path h =
     (let ref = FindAsset fs path in
      if \<not> ref_ok ref then Inr h
      else
        let size = ref_size ref;
            handle = OpenAsset fs ref
        in
        if \<not> handle_ok handle then Inr h
        else
          (case (if size > 0 then handle_read handle size else Some []) of
             None \<Rightarrow> Inr h
           | Some luaScriptStr \<Rightarrow>
               (case luaState h of
                  None \<Rightarrow> Inl EmptyOptional
                | Some lua \<Rightarrow>
                    (case safe_script rt luaScriptStr lua of
                       None \<Rightarrow> Inl Hangs
                     | Some (result, lua') \<Rightarrow>
                         Inr (snd (CheckResult result (h\<lparr>luaState := Some lua'\<rparr>)))))))"

definition LuaPanic :: "string option \<Rightarrow> 'vm host \<Rightarrow> 'vm host" where
  "LuaPanic message h =
     LogError (''Lua is in a panic state and will now abort() the application:'' @ [CHR 0x0A])
       [value_or message ''unknown error''] h"

definition LuaEvent :: "'vm runtime \<Rightarrow> string \<Rightarrow> 'vm host \<Rightarrow> halt + 'vm host" where
  "LuaEvent rt name h =
     (case luaState h of
        None \<Rightarrow> Inl EmptyOptional
      | Some lua \<Rightarrow>
          (case traverse_get rt lua [''Events'', name, ''Trigger''] of
             None \<Rightarrow> Inr (LogError ''Events.{}.Trigger is not a function'' [name] h)
           | Some trigger \<Rightarrow>
               if \<not> is_protected_function rt lua trigger
               then Inr (LogError ''Events.{}.Trigger is not a function'' [name] h)
               else
                 (case call_function rt trigger [] lua of
                    None \<Rightarrow> Inl Hangs
                  | Some (result, lua') \<Rightarrow>
                      Inr (snd (CheckResult result (h\<lparr>luaState := Some lua'\<rparr>))))))"

definition LuaInitialize :: "'vm runtime \<Rightarrow> assets \<Rightarrow> bool \<Rightarrow> 'vm host \<Rightarrow> halt + 'vm host" where
  "LuaInitialize rt fs debug_build h =
     (let lua0 = new_state rt (NativeFunction ''LuaPanic'');
          lua1 = open_libraries rt
                   [Lib_base, Lib_package, Lib_coroutine, Lib_table, Lib_string, Lib_math, Lib_utf8]
                   lua0;
          lua2 = (if debug_build then open_libraries rt [Lib_debug] lua1 else lua1);
          lua3 = set_globals rt
                   [(''print'', NativeFunction ''LuaPrint''), (''_VERSION'', Macro ''LUA_VERSION'')]
                   lua2;
          lua4 = create_named_table rt ''devilutionx''
                   [(''log'', Module ''LuaLogModule''),
                    (''render'', Module ''LuaRenderModule''),
                    (''message'', NativeFunction ''EventPlrMsg'')]
                   lua3;
          h0 = h\<lparr>luaState := Some lua4\<rparr>
      in
      case RunScript rt fs ''lua/init.lua'' h0 of
        Inl e \<Rightarrow> Inl e
      | Inr h1 \<Rightarrow>
          (case RunScript rt fs ''lua/user.lua'' h1 of
             Inl e \<Rightarrow> Inl e
           | Inr h2 \<Rightarrow> LuaEvent rt ''OnGameBoot'' h2))"

definition LuaShutdown :: "'vm host \<Rightarrow> 'vm host" where
  "LuaShutdown h = h\<lparr>luaState := None\<rparr>"

text \<open>\<open>tl::expected<std::string, std::string>\<close>: \<open>Inl\<close> is the unexpected (error) side.\<close>

definition RunLua ::
  "'vm runtime \<Rightarrow> string \<Rightarrow> 'vm host \<Rightarrow> halt + ((string + string) \<times> 'vm host)" where
  "RunLua rt code h =
     (case luaState h of
        None \<Rightarrow> Inl EmptyOptional
      | Some lua \<Rightarrow>
          (case safe_script rt code lua of
             None \<Rightarrow> Inl Hangs
           | Some (result, lua') \<Rightarrow>
               (let v = valid result;
                    h' = h\<lparr>luaState := Some lua'\<rparr>
                in
                if \<not> v then
                  (if get_type result = T_string
                   then Inr (Inl (get_string result), h')
                   else Inr (Inl ''Unknown Lua error'', h'))
                else Inr (Inr (to_string rt lua' (object result)), h'))))"

subsection \<open>What RunScript executes, and what a failed execution logs\<close>

text \<open>
  The text \<open>RunScript\<close> hands to the runtime for a path (lines 52 to 66 of the file), and
  \<open>None\<close> where it returns before executing anything.
\<close>

definition script_source :: "assets \<Rightarrow> string \<Rightarrow> string option" where
  "script_source fs path =
     (let ref = FindAsset fs path;
          handle = OpenAsset fs ref
      in
      if \<not> ref_ok ref \<or> \<not> handle_ok handle then None
      else if 0 < ref_size ref then handle_read handle (ref_size ref)
      else Some [])"

text \<open>The text of the entry \<open>CheckResult\<close> logs for a result that is not valid.\<close>

definition error_text :: "protected_function_result \<Rightarrow> string" where
  "error_text result =
     (case object result of LString s \<Rightarrow> ''Lua error: '' @ s | _ \<Rightarrow> ''Unknown Lua error'')"

text \<open>The call \<open>RunScript\<close> makes on the runtime for a path: one execution, or none.\<close>

definition script_calls :: "assets \<Rightarrow> string \<Rightarrow> sol_call list" where
  "script_calls fs path =
     (case script_source fs path of None \<Rightarrow> [] | Some src \<Rightarrow> [SafeScript src])"

text \<open>The calls \<open>LuaInitialize\<close> makes on the new state before it loads a script.\<close>

definition boot_calls :: "bool \<Rightarrow> sol_call list" where
  "boot_calls debug_build =
     [NewState (NativeFunction ''LuaPanic''),
      OpenLibraries
        [Lib_base, Lib_package, Lib_coroutine, Lib_table, Lib_string, Lib_math, Lib_utf8]]
     @ (if debug_build then [OpenLibraries [Lib_debug]] else [])
     @ [SetGlobals [(''print'', NativeFunction ''LuaPrint''), (''_VERSION'', Macro ''LUA_VERSION'')],
        CreateNamedTable ''devilutionx''
          [(''log'', Module ''LuaLogModule''),
           (''render'', Module ''LuaRenderModule''),
           (''message'', NativeFunction ''EventPlrMsg'')]]"

text \<open>
  The interpreter state \<open>LuaInitialize\<close> has built when it loads the first script: a new
  state with the panic callback, the libraries opened on it one by one, then the two
  globals and the named table.
\<close>

definition boot_vm :: "'vm runtime \<Rightarrow> bool \<Rightarrow> 'vm" where
  "boot_vm rt debug_build =
     rt_named_table rt ''devilutionx''
       [(''log'', Module ''LuaLogModule''),
        (''render'', Module ''LuaRenderModule''),
        (''message'', NativeFunction ''EventPlrMsg'')]
       (rt_set rt ''_VERSION'' (Macro ''LUA_VERSION'')
         (rt_set rt ''print'' (NativeFunction ''LuaPrint'')
           (fold (rt_open rt)
              ([Lib_base, Lib_package, Lib_coroutine, Lib_table, Lib_string, Lib_math, Lib_utf8]
               @ (if debug_build then [Lib_debug] else []))
              (rt_new rt (NativeFunction ''LuaPanic'')))))"

definition boot_state :: "'vm runtime \<Rightarrow> bool \<Rightarrow> 'vm sol_state" where
  "boot_state rt debug_build = \<lparr>vm = boot_vm rt debug_build, history = boot_calls debug_build\<rparr>"

text \<open>The libraries a sequence of calls has opened, in order.\<close>

fun opened_libraries :: "sol_call list \<Rightarrow> lua_lib list" where
  "opened_libraries [] = []"
| "opened_libraries (OpenLibraries libs # cs) = libs @ opened_libraries cs"
| "opened_libraries (c # cs) = opened_libraries cs"

subsection \<open>A small runtime and asset system to run the functions on\<close>

text \<open>
  A stand-in interpreter: its state is the list of \<open>Trigger\<close> values by event name, and it
  knows a handful of chunks, each with the outcome Lua 5.4 gives it. Any other text it
  refuses with a syntax error. Function 1 returns nothing; function 2 raises the string
  \<open>no save game\<close>. References print their number in place of an address.
\<close>

type_synonym sample_vm = "(string \<times> lua_value) list"

definition nil_arithmetic :: string where
  "nil_arithmetic =
     ''[string '' @ [CHR 0x22] @ ''return nil+1'' @ [CHR 0x22]
       @ '']:1: attempt to perform arithmetic on a nil value''"

definition sample_script ::
  "string \<Rightarrow> sample_vm \<Rightarrow> (protected_function_result \<times> sample_vm) option" where
  "sample_script code v =
     (if code = [] then Some (\<lparr>status = Status_ok, object = LNone\<rparr>, v)
      else if code = ''return 1+1'' then Some (\<lparr>status = Status_ok, object = LInteger 2\<rparr>, v)
      else if code = ''return nil+1''
        then Some (\<lparr>status = Status_runtime, object = LString nil_arithmetic\<rparr>, v)
      else if code = ''error({})'' then Some (\<lparr>status = Status_runtime, object = LTable 0\<rparr>, v)
      else if code = ''error([[]], 0)''
        then Some (\<lparr>status = Status_runtime, object = LString []\<rparr>, v)
      else if code = ''Events = { OnGameBoot = { Trigger = function() end } }''
        then Some (\<lparr>status = Status_ok, object = LNone\<rparr>, [(''OnGameBoot'', LFunction 1)])
      else if code = ''while true do end'' then None
      else Some (\<lparr>status = Status_syntax, object = LString ''syntax error''\<rparr>, v))"

definition sample_call ::
  "lua_value \<Rightarrow> lua_value list \<Rightarrow> sample_vm \<Rightarrow> (protected_function_result \<times> sample_vm) option" where
  "sample_call fn args v =
     (if fn = LFunction 1 then Some (\<lparr>status = Status_ok, object = LNone\<rparr>, v)
      else if fn = LFunction 2
        then Some (\<lparr>status = Status_runtime, object = LString ''no save game''\<rparr>, v)
      else Some (\<lparr>status = Status_runtime, object = LString ''attempt to call a non-function''\<rparr>, v))"

definition sample_traverse :: "sample_vm \<Rightarrow> string list \<Rightarrow> lua_value option" where
  "sample_traverse v keys =
     (case keys of
        [a, name, c] \<Rightarrow> if a = ''Events'' \<and> c = ''Trigger'' then map_of v name else None
      | _ \<Rightarrow> None)"

function decimal :: "nat \<Rightarrow> string" where
  "decimal n =
     (if n < 10 then [''0123456789'' ! n]
      else decimal (n div 10) @ [''0123456789'' ! (n mod 10)])"
  by pat_completeness auto
termination
  by (relation "measure id") auto

definition sample_to_string :: "sample_vm \<Rightarrow> lua_value \<Rightarrow> string" where
  "sample_to_string v x =
     (case x of
        LNone \<Rightarrow> ''no value''
      | LNil \<Rightarrow> ''nil''
      | LBoolean b \<Rightarrow> (if b then ''true'' else ''false'')
      | LInteger i \<Rightarrow> (if i < 0 then ''-'' @ decimal (nat (- i)) else decimal (nat i))
      | LString s \<Rightarrow> s
      | LTable n \<Rightarrow> ''table: '' @ decimal n
      | LFunction n \<Rightarrow> ''function: '' @ decimal n
      | LUserdata n \<Rightarrow> ''userdata: '' @ decimal n
      | LThread n \<Rightarrow> ''thread: '' @ decimal n)"

definition sample_runtime :: "sample_vm runtime" where
  "sample_runtime =
     \<lparr>rt_new = (\<lambda>panic. []),
      rt_open = (\<lambda>lib v. v),
      rt_set = (\<lambda>k b v. v),
      rt_named_table = (\<lambda>name kvs v. v),
      rt_script = sample_script,
      rt_call = sample_call,
      rt_traverse = sample_traverse,
      rt_callable = (\<lambda>v x. type_of x = T_function),
      rt_to_string = sample_to_string\<rparr>"

text \<open>
  A second stand-in, for what gets opened: its state is the list of the libraries opened
  on it so far; chunks and functions do nothing and no path resolves.
\<close>

definition library_runtime :: "lua_lib list runtime" where
  "library_runtime =
     \<lparr>rt_new = (\<lambda>panic. []),
      rt_open = (\<lambda>lib v. v @ [lib]),
      rt_set = (\<lambda>k b v. v),
      rt_named_table = (\<lambda>name kvs v. v),
      rt_script = (\<lambda>code v. Some (\<lparr>status = Status_ok, object = LNone\<rparr>, v)),
      rt_call = (\<lambda>fn args v. Some (\<lparr>status = Status_ok, object = LNone\<rparr>, v)),
      rt_traverse = (\<lambda>v keys. None),
      rt_callable = (\<lambda>v x. False),
      rt_to_string = (\<lambda>v x. [])\<rparr>"

text \<open>
  An asset system over a list of files: path, size, and the content a read of that many
  bytes gives (\<open>None\<close>: the file is found and opens, and the read fails).
\<close>

definition assets_of :: "(string \<times> nat \<times> string option) list \<Rightarrow> assets" where
  "assets_of files =
     \<lparr>FindAsset = (\<lambda>path.
        case map_of files path of
          None \<Rightarrow> \<lparr>ref_path = path, ref_ok = False, ref_size = 0\<rparr>
        | Some (n, content) \<Rightarrow> \<lparr>ref_path = path, ref_ok = True, ref_size = n\<rparr>),
      OpenAsset = (\<lambda>ref.
        case map_of files (ref_path ref) of
          None \<Rightarrow> \<lparr>handle_ok = False, handle_read = (\<lambda>n. None)\<rparr>
        | Some (n, content) \<Rightarrow> \<lparr>handle_ok = True, handle_read = (\<lambda>k. content)\<rparr>)\<rparr>"

text \<open>Both bootstrap scripts present: the first registers a handler, the second fails.\<close>

definition boot_files :: assets where
  "boot_files = assets_of
     [(''lua/init.lua'', 54, Some ''Events = { OnGameBoot = { Trigger = function() end } }''),
      (''lua/user.lua'', 12, Some ''return nil+1'')]"

definition fresh_host :: "sample_vm host" where
  "fresh_host = \<lparr>luaState = None, logged = []\<rparr>"

text \<open>A host whose runtime holds the given \<open>Trigger\<close> values and has seen no call yet.\<close>

definition host_with :: "sample_vm \<Rightarrow> sample_vm host" where
  "host_with v = \<lparr>luaState = Some \<lparr>vm = v, history = []\<rparr>, logged = []\<rparr>"

section \<open>Properties\<close>

subsection \<open>Formatting and the shared validity check\<close>

lemma fmt_event:
  "fmt_format ''Events.{}.Trigger is not a function'' [name]
     = ''Events.'' @ name @ ''.Trigger is not a function''"
  by simp

lemma fmt_lua_error: "fmt_format ''Lua error: {}'' [s] = ''Lua error: '' @ s"
  by simp

lemma fmt_unknown: "fmt_format ''Unknown Lua error'' args = ''Unknown Lua error''"
  by simp

text \<open>\<open>CheckResult\<close> leaves the host alone on a valid result and appends one entry otherwise.\<close>

lemma CheckResult_snd:
  "snd (CheckResult result h) =
     (if valid result then h else h\<lparr>logged := logged h @ [(Error, error_text result)]\<rparr>)"
proof (cases "object result")
  case (LString s)
  then show ?thesis
    by (simp add: CheckResult_def LogError_def error_text_def get_type_def get_string_def
        fmt_lua_error del: fmt_format.simps)
qed (simp_all add: CheckResult_def LogError_def error_text_def get_type_def fmt_unknown
      del: fmt_format.simps)

lemma CheckResult_fst: "fst (CheckResult result h) = valid result"
  by (simp add: CheckResult_def Let_def)

text \<open>\<open>RunScript\<close> by what it executes.\<close>

lemma RunScript_skip:
  "script_source fs path = None \<Longrightarrow> RunScript rt fs path h = Inr h"
  by (auto simp: script_source_def RunScript_def Let_def split: if_splits)

lemma RunScript_run:
  assumes "script_source fs path = Some src"
  shows "RunScript rt fs path h =
     (case luaState h of
        None \<Rightarrow> Inl EmptyOptional
      | Some lua \<Rightarrow>
          (case rt_script rt src (vm lua) of
             None \<Rightarrow> Inl Hangs
           | Some (result, v) \<Rightarrow>
               Inr \<lparr>luaState = Some \<lparr>vm = v, history = history lua @ [SafeScript src]\<rparr>,
                    logged = logged h @ (if valid result then [] else [(Error, error_text result)])\<rparr>))"
  using assms
  by (auto simp: script_source_def RunScript_def Let_def safe_script_def CheckResult_snd
      split: if_splits option.splits)

subsection \<open>The event dispatcher\<close>

text \<open>
  C4. When the path \<open>Events[name].Trigger\<close> does not resolve, or resolves to a value that
  is not callable, \<open>LuaEvent name\<close> returns normally, having appended exactly one
  error entry, which names the event; the runtime, with the record of calls made on it,
  is what it was, so no handler was invoked.
\<close>

theorem LuaEvent_no_handler:
  assumes "luaState h = Some lua"
    and "traverse_get rt lua [''Events'', name, ''Trigger''] = None
         \<or> (\<exists>t. traverse_get rt lua [''Events'', name, ''Trigger''] = Some t
                 \<and> \<not> is_protected_function rt lua t)"
  shows "LuaEvent rt name h =
           Inr (h\<lparr>logged := logged h @ [(Error, ''Events.'' @ name @ ''.Trigger is not a function'')]\<rparr>)"
  using assms
  by (auto simp: LuaEvent_def LogError_def fmt_event simp del: fmt_format.simps)

theorem LuaEvent_no_handler_witness:
  "luaState (host_with []) = Some \<lparr>vm = [], history = []\<rparr>
   \<and> traverse_get sample_runtime \<lparr>vm = [], history = []\<rparr> [''Events'', ''OnGameBoot'', ''Trigger''] = None
   \<and> LuaEvent sample_runtime ''OnGameBoot'' (host_with []) =
       Inr \<lparr>luaState = Some \<lparr>vm = [], history = []\<rparr>,
            logged = [(Error, ''Events.OnGameBoot.Trigger is not a function'')]\<rparr>"
  using LuaEvent_no_handler [of "host_with []" "\<lparr>vm = [], history = []\<rparr>" sample_runtime "''OnGameBoot''"]
  by (simp add: host_with_def traverse_get_def sample_runtime_def sample_traverse_def)

text \<open>
  C5. When \<open>Events[name].Trigger\<close> resolves to a callable \<open>fn\<close>, \<open>LuaEvent name\<close> makes one
  protected call of \<open>fn\<close> with no arguments: the record of calls grows by exactly
  \<open>Invoke fn []\<close>. When the call returns, \<open>LuaEvent\<close> returns normally; the value the
  handler returned appears nowhere in the outcome, and a result that is not valid adds
  exactly one error entry. (A handler that never returns leaves \<open>LuaEvent\<close> hanging; that
  is the only other outcome.)
\<close>

theorem LuaEvent_handler:
  assumes "luaState h = Some lua"
    and "traverse_get rt lua [''Events'', name, ''Trigger''] = Some fn"
    and "is_protected_function rt lua fn"
  shows "LuaEvent rt name h =
     (case rt_call rt fn [] (vm lua) of
        None \<Rightarrow> Inl Hangs
      | Some (result, v) \<Rightarrow>
          Inr \<lparr>luaState = Some \<lparr>vm = v, history = history lua @ [Invoke fn []]\<rparr>,
               logged = logged h @ (if valid result then [] else [(Error, error_text result)])\<rparr>)"
  using assms
  by (auto simp: LuaEvent_def call_function_def CheckResult_snd split: option.splits)

theorem LuaEvent_handler_witness:
  "luaState (host_with [(''OnGameBoot'', LFunction 2)])
     = Some \<lparr>vm = [(''OnGameBoot'', LFunction 2)], history = []\<rparr>
   \<and> traverse_get sample_runtime \<lparr>vm = [(''OnGameBoot'', LFunction 2)], history = []\<rparr>
        [''Events'', ''OnGameBoot'', ''Trigger''] = Some (LFunction 2)
   \<and> is_protected_function sample_runtime
        \<lparr>vm = [(''OnGameBoot'', LFunction 2)], history = []\<rparr> (LFunction 2)
   \<and> LuaEvent sample_runtime ''OnGameBoot'' (host_with [(''OnGameBoot'', LFunction 2)]) =
       Inr \<lparr>luaState = Some \<lparr>vm = [(''OnGameBoot'', LFunction 2)],
                               history = [Invoke (LFunction 2) []]\<rparr>,
            logged = [(Error, ''Lua error: no save game'')]\<rparr>"
  using LuaEvent_handler [of "host_with [(''OnGameBoot'', LFunction 2)]"
      "\<lparr>vm = [(''OnGameBoot'', LFunction 2)], history = []\<rparr>" sample_runtime "''OnGameBoot''"
      "LFunction 2"]
  by (simp add: host_with_def traverse_get_def is_protected_function_def sample_runtime_def
      sample_traverse_def sample_call_def valid_def error_text_def)

subsection \<open>The script loader\<close>

text \<open>
  C6. When the asset system does not find the path, or finds it and the handle does not
  open or the read of its bytes fails, \<open>RunScript path\<close> returns normally with the host
  unchanged: nothing is logged, and the runtime and the record of calls made on it are
  the same, so no script was executed.
\<close>

theorem RunScript_silent:
  assumes "ref = FindAsset fs path" and "handle = OpenAsset fs ref"
    and "\<not> ref_ok ref \<or> \<not> handle_ok handle
         \<or> (0 < ref_size ref \<and> handle_read handle (ref_size ref) = None)"
  shows "RunScript rt fs path h = Inr h"
  using assms by (auto simp: RunScript_def Let_def)

theorem RunScript_silent_witness:
  "ref_ok (FindAsset (assets_of [(''lua/user.lua'', 12, None)]) ''lua/user.lua'')
   \<and> handle_ok (OpenAsset (assets_of [(''lua/user.lua'', 12, None)])
        (FindAsset (assets_of [(''lua/user.lua'', 12, None)]) ''lua/user.lua''))
   \<and> handle_read (OpenAsset (assets_of [(''lua/user.lua'', 12, None)])
        (FindAsset (assets_of [(''lua/user.lua'', 12, None)]) ''lua/user.lua'')) 12 = None
   \<and> RunScript sample_runtime (assets_of [(''lua/user.lua'', 12, None)]) ''lua/user.lua'' (host_with [])
       = Inr (host_with [])"
  using RunScript_silent [of
      "FindAsset (assets_of [(''lua/user.lua'', 12, None)]) ''lua/user.lua''"
      "assets_of [(''lua/user.lua'', 12, None)]" "''lua/user.lua''"
      "OpenAsset (assets_of [(''lua/user.lua'', 12, None)])
         (FindAsset (assets_of [(''lua/user.lua'', 12, None)]) ''lua/user.lua'')"
      sample_runtime "host_with []"]
  by (simp add: assets_of_def)

text \<open>
  C7. When the path is found, opened and read in full, and the execution of its text
  returns, \<open>RunScript path\<close> returns normally after one execution of that text. A result
  that is not valid adds exactly one error entry: \<open>Lua error:\<close> followed by the error
  payload when that is a string, \<open>Unknown Lua error\<close> otherwise. A valid result adds
  nothing, and its value is kept nowhere.
\<close>

theorem RunScript_checked:
  assumes "ref = FindAsset fs path" and "handle = OpenAsset fs ref"
    and "ref_ok ref" and "handle_ok handle"
    and "if 0 < ref_size ref then handle_read handle (ref_size ref) = Some src else src = []"
    and "luaState h = Some lua"
    and "safe_script rt src lua = Some (result, lua')"
  shows "RunScript rt fs path h =
           Inr (h\<lparr>luaState := Some lua',
                  logged := logged h @
                    (if valid result then []
                     else [(Error, case object result of
                                     LString s \<Rightarrow> ''Lua error: '' @ s
                                   | _ \<Rightarrow> ''Unknown Lua error'')])\<rparr>)
         \<and> history lua' = history lua @ [SafeScript src]"
  using assms
  by (auto simp: RunScript_def Let_def CheckResult_snd safe_script_def error_text_def
      split: if_splits option.splits)

theorem RunScript_checked_witness:
  "ref_ok (FindAsset (assets_of [(''lua/user.lua'', 12, Some ''return nil+1'')]) ''lua/user.lua'')
   \<and> handle_ok (OpenAsset (assets_of [(''lua/user.lua'', 12, Some ''return nil+1'')])
        (FindAsset (assets_of [(''lua/user.lua'', 12, Some ''return nil+1'')]) ''lua/user.lua''))
   \<and> handle_read (OpenAsset (assets_of [(''lua/user.lua'', 12, Some ''return nil+1'')])
        (FindAsset (assets_of [(''lua/user.lua'', 12, Some ''return nil+1'')]) ''lua/user.lua'')) 12
       = Some ''return nil+1''
   \<and> safe_script sample_runtime ''return nil+1'' \<lparr>vm = [], history = []\<rparr>
       = Some (\<lparr>status = Status_runtime, object = LString nil_arithmetic\<rparr>,
               \<lparr>vm = [], history = [SafeScript ''return nil+1'']\<rparr>)
   \<and> RunScript sample_runtime (assets_of [(''lua/user.lua'', 12, Some ''return nil+1'')])
        ''lua/user.lua'' (host_with [])
       = Inr \<lparr>luaState = Some \<lparr>vm = [], history = [SafeScript ''return nil+1'']\<rparr>,
              logged = [(Error, ''Lua error: '' @ nil_arithmetic)]\<rparr>"
  using RunScript_checked [of
      "FindAsset (assets_of [(''lua/user.lua'', 12, Some ''return nil+1'')]) ''lua/user.lua''"
      "assets_of [(''lua/user.lua'', 12, Some ''return nil+1'')]" "''lua/user.lua''"
      "OpenAsset (assets_of [(''lua/user.lua'', 12, Some ''return nil+1'')])
         (FindAsset (assets_of [(''lua/user.lua'', 12, Some ''return nil+1'')]) ''lua/user.lua'')"
      "''return nil+1''" "host_with []" "\<lparr>vm = [], history = []\<rparr>" sample_runtime
      "\<lparr>status = Status_runtime, object = LString nil_arithmetic\<rparr>"
      "\<lparr>vm = [], history = [SafeScript ''return nil+1'']\<rparr>"]
  by (simp add: assets_of_def host_with_def safe_script_def sample_runtime_def
      sample_script_def valid_def)

subsection \<open>Ad hoc evaluation\<close>

text \<open>
  C1, as the code has it. When the protected execution of the text returns a valid
  result (it loaded, it returned, and it raised no error), \<open>RunLua\<close> returns the success
  side holding the textual form of the result's value. On the sample runtime
  \<open>return 1+1\<close> gives \<open>2\<close>.
\<close>

theorem RunLua_success:
  assumes "luaState h = Some lua"
    and "safe_script rt code lua = Some (result, lua')"
    and "valid result"
  shows "RunLua rt code h
           = Inr (Inr (to_string rt lua' (object result)), h\<lparr>luaState := Some lua'\<rparr>)"
  using assms by (simp add: RunLua_def)

theorem RunLua_success_witness:
  "luaState (host_with []) = Some \<lparr>vm = [], history = []\<rparr>
   \<and> safe_script sample_runtime ''return 1+1'' \<lparr>vm = [], history = []\<rparr>
       = Some (\<lparr>status = Status_ok, object = LInteger 2\<rparr>,
               \<lparr>vm = [], history = [SafeScript ''return 1+1'']\<rparr>)
   \<and> valid \<lparr>status = Status_ok, object = LInteger 2\<rparr>
   \<and> RunLua sample_runtime ''return 1+1'' (host_with [])
       = Inr (Inr ''2'', \<lparr>luaState = Some \<lparr>vm = [], history = [SafeScript ''return 1+1'']\<rparr>,
                           logged = []\<rparr>)"
  using RunLua_success [of "host_with []" "\<lparr>vm = [], history = []\<rparr>" sample_runtime
      "''return 1+1''" "\<lparr>status = Status_ok, object = LInteger 2\<rparr>"
      "\<lparr>vm = [], history = [SafeScript ''return 1+1'']\<rparr>"]
  by (simp add: host_with_def safe_script_def sample_runtime_def sample_script_def valid_def
      to_string_def sample_to_string_def)

text \<open>
  A text that is syntactically valid and terminates need not succeed: \<open>return nil+1\<close>
  loads, runs and raises a runtime error, and \<open>RunLua\<close> returns the error side.
\<close>

theorem RunLua_runtime_error:
  "safe_script sample_runtime ''return nil+1'' \<lparr>vm = [], history = []\<rparr>
       = Some (\<lparr>status = Status_runtime, object = LString nil_arithmetic\<rparr>,
               \<lparr>vm = [], history = [SafeScript ''return nil+1'']\<rparr>)
   \<and> RunLua sample_runtime ''return nil+1'' (host_with [])
       = Inr (Inl nil_arithmetic,
              \<lparr>luaState = Some \<lparr>vm = [], history = [SafeScript ''return nil+1'']\<rparr>, logged = []\<rparr>)"
  by (simp add: RunLua_def host_with_def safe_script_def sample_runtime_def sample_script_def
      valid_def get_type_def get_string_def)

text \<open>
  C2, as the code has it. When the protected execution of the text returns a result that
  is not valid, \<open>RunLua\<close> returns the error side. The message is the error payload when
  that is a string and \<open>Unknown Lua error\<close> otherwise; it is empty only when the payload
  is the empty string.
\<close>

theorem RunLua_failure:
  assumes "luaState h = Some lua"
    and "safe_script rt code lua = Some (result, lua')"
    and "\<not> valid result"
  shows "\<exists>message.
           RunLua rt code h = Inr (Inl message, h\<lparr>luaState := Some lua'\<rparr>)
         \<and> message = (case object result of LString s \<Rightarrow> s | _ \<Rightarrow> ''Unknown Lua error'')
         \<and> (object result \<noteq> LString [] \<longrightarrow> message \<noteq> [])"
  using assms
  by (cases "object result") (simp_all add: RunLua_def get_type_def get_string_def)

theorem RunLua_failure_witness:
  "luaState (host_with []) = Some \<lparr>vm = [], history = []\<rparr>
   \<and> safe_script sample_runtime ''return 1 +'' \<lparr>vm = [], history = []\<rparr>
       = Some (\<lparr>status = Status_syntax, object = LString ''syntax error''\<rparr>,
               \<lparr>vm = [], history = [SafeScript ''return 1 +'']\<rparr>)
   \<and> \<not> valid \<lparr>status = Status_syntax, object = LString ''syntax error''\<rparr>
   \<and> RunLua sample_runtime ''return 1 +'' (host_with [])
       = Inr (Inl ''syntax error'',
              \<lparr>luaState = Some \<lparr>vm = [], history = [SafeScript ''return 1 +'']\<rparr>, logged = []\<rparr>)"
  using RunLua_failure [of "host_with []" "\<lparr>vm = [], history = []\<rparr>" sample_runtime
      "''return 1 +''" "\<lparr>status = Status_syntax, object = LString ''syntax error''\<rparr>"
      "\<lparr>vm = [], history = [SafeScript ''return 1 +'']\<rparr>"]
  by (simp add: host_with_def safe_script_def sample_runtime_def sample_script_def valid_def)

text \<open>
  The message for a payload that is not a string is \<open>Unknown Lua error\<close>, not
  \<open>Unknown error\<close>; and a script that raises the empty string gets the empty message.
\<close>

theorem RunLua_unknown_error_text:
  "RunLua sample_runtime ''error({})'' (host_with [])
     = Inr (Inl ''Unknown Lua error'',
            \<lparr>luaState = Some \<lparr>vm = [], history = [SafeScript ''error({})'']\<rparr>, logged = []\<rparr>)
   \<and> ''Unknown Lua error'' \<noteq> ''Unknown error''
   \<and> RunLua sample_runtime ''error([[]], 0)'' (host_with [])
     = Inr (Inl [],
            \<lparr>luaState = Some \<lparr>vm = [], history = [SafeScript ''error([[]], 0)'']\<rparr>, logged = []\<rparr>)"
  by (simp add: RunLua_def host_with_def safe_script_def sample_runtime_def sample_script_def
      valid_def get_type_def get_string_def)

subsection \<open>Panic and shutdown\<close>

text \<open>
  C3, at \<open>LuaPanic\<close> called with the message \<open>stack overflow\<close> and with no message. The
  format string has no replacement field, so the argument is dropped: the entry is the
  fixed text alone and contains neither the message nor \<open>unknown error\<close>.
\<close>

theorem LuaPanic_log_entry:
  "logged (LuaPanic (Some ''stack overflow'') fresh_host)
     = [(Error, ''Lua is in a panic state and will now abort() the application:'' @ [CHR 0x0A])]
   \<and> \<not> sublist ''stack overflow''
         (''Lua is in a panic state and will now abort() the application:'' @ [CHR 0x0A])
   \<and> logged (LuaPanic None fresh_host)
     = [(Error, ''Lua is in a panic state and will now abort() the application:'' @ [CHR 0x0A])]
   \<and> \<not> sublist ''unknown error''
         (''Lua is in a panic state and will now abort() the application:'' @ [CHR 0x0A])"
proof -
  have "\<And>m. logged (LuaPanic m fresh_host)
     = [(Error, ''Lua is in a panic state and will now abort() the application:'' @ [CHR 0x0A])]"
    by (simp add: LuaPanic_def LogError_def fresh_host_def)
  moreover have "\<not> sublist ''stack overflow''
         (''Lua is in a panic state and will now abort() the application:'' @ [CHR 0x0A])"
    by code_simp
  moreover have "\<not> sublist ''unknown error''
         (''Lua is in a panic state and will now abort() the application:'' @ [CHR 0x0A])"
    by code_simp
  ultimately show ?thesis by blast
qed

text \<open>
  Outside the contract: without a runtime the three entry points dereference the empty
  optional, and a chunk that never returns keeps \<open>RunLua\<close> from returning.
\<close>

lemma no_runtime:
  assumes "luaState h = None"
  shows "RunLua rt code h = Inl EmptyOptional"
    and "LuaEvent rt name h = Inl EmptyOptional"
    and "script_source fs path = Some src \<Longrightarrow> RunScript rt fs path h = Inl EmptyOptional"
  using assms by (simp_all add: RunLua_def LuaEvent_def RunScript_run)

lemma sample_hangs: "RunLua sample_runtime ''while true do end'' (host_with []) = Inl Hangs"
  by (simp add: RunLua_def host_with_def safe_script_def sample_runtime_def sample_script_def)

text \<open>
  C10. After \<open>LuaShutdown\<close> the optional runtime is empty, and a second \<open>LuaShutdown\<close>
  changes nothing; the log is never touched. \<open>LuaShutdown\<close> has no failing branch.
\<close>

theorem LuaShutdown_idempotent:
  "luaState (LuaShutdown h) = None
   \<and> LuaShutdown (LuaShutdown h) = LuaShutdown h
   \<and> logged (LuaShutdown h) = logged h"
  by (simp add: LuaShutdown_def)

subsection \<open>Initialization\<close>

lemma opened_libraries_append:
  "opened_libraries (xs @ ys) = opened_libraries xs @ opened_libraries ys"
  by (induction xs rule: opened_libraries.induct) simp_all

lemma opened_script_calls: "opened_libraries (script_calls fs path) = []"
  by (simp add: script_calls_def split: option.splits)

lemma opened_boot:
  "opened_libraries (boot_calls dbg) =
     [Lib_base, Lib_package, Lib_coroutine, Lib_table, Lib_string, Lib_math, Lib_utf8]
     @ (if dbg then [Lib_debug] else [])"
  by (simp add: boot_calls_def)

text \<open>
  On a live runtime, \<open>RunScript\<close> returns when the one execution it makes returns,
  whatever the script did.
\<close>

lemma RunScript_returns:
  assumes "luaState h = Some lua"
    and "\<forall>src. script_source fs path = Some src \<longrightarrow> rt_script rt src (vm lua) \<noteq> None"
  shows "\<exists>h' lua' es. RunScript rt fs path h = Inr h' \<and> luaState h' = Some lua'
           \<and> history lua' = history lua @ script_calls fs path
           \<and> logged h' = logged h @ es
           \<and> (script_source fs path = None \<longrightarrow> h' = h)
           \<and> (\<forall>src r l. script_source fs path = Some src \<and> safe_script rt src lua = Some (r, l)
                  \<and> \<not> valid r \<longrightarrow> es = [(Error, error_text r)])"
proof (cases "script_source fs path")
  case None
  then show ?thesis using assms by (simp add: RunScript_skip script_calls_def)
next
  case (Some src)
  with assms obtain r v where rv: "rt_script rt src (vm lua) = Some (r, v)"
    by (metis option.exhaust surj_pair)
  show ?thesis
    using Some assms(1) rv by (simp add: RunScript_run script_calls_def safe_script_def)
qed

lemma RunScript_Inr_history:
  assumes "RunScript rt fs path h = Inr h'" and "luaState h = Some lua"
  shows "\<exists>lua'. luaState h' = Some lua' \<and> history lua' = history lua @ script_calls fs path"
proof (cases "script_source fs path")
  case None
  then show ?thesis using assms by (simp add: RunScript_skip script_calls_def)
next
  case (Some src)
  then show ?thesis
    using assms by (auto simp: RunScript_run script_calls_def split: option.splits)
qed

text \<open>Likewise \<open>LuaEvent\<close>, when the one call it makes, if it makes one, returns.\<close>

lemma LuaEvent_returns:
  assumes "luaState h = Some lua"
    and "\<forall>fn. traverse_get rt lua [''Events'', name, ''Trigger''] = Some fn
               \<and> is_protected_function rt lua fn \<longrightarrow> rt_call rt fn [] (vm lua) \<noteq> None"
  shows "\<exists>h' lua' ev es. LuaEvent rt name h = Inr h' \<and> luaState h' = Some lua'
           \<and> history lua' = history lua @ ev \<and> (ev = [] \<or> (\<exists>fn. ev = [Invoke fn []]))
           \<and> logged h' = logged h @ es"
proof (cases "\<exists>fn. traverse_get rt lua [''Events'', name, ''Trigger''] = Some fn
                \<and> is_protected_function rt lua fn")
  case False
  then have "LuaEvent rt name h =
      Inr (LogError ''Events.{}.Trigger is not a function'' [name] h)"
    using assms(1) by (auto simp: LuaEvent_def split: option.splits)
  then show ?thesis using assms(1) by (simp add: LogError_def del: fmt_format.simps)
next
  case True
  then obtain fn where fn: "traverse_get rt lua [''Events'', name, ''Trigger''] = Some fn"
    "is_protected_function rt lua fn" by blast
  with assms(2) obtain r v where "rt_call rt fn [] (vm lua) = Some (r, v)"
    by (metis option.exhaust surj_pair)
  then have "LuaEvent rt name h =
      Inr \<lparr>luaState = Some \<lparr>vm = v, history = history lua @ [Invoke fn []]\<rparr>,
           logged = logged h @ (if valid r then [] else [(Error, error_text r)])\<rparr>"
    using assms(1) fn by (simp add: LuaEvent_def call_function_def CheckResult_snd)
  then show ?thesis by simp
qed

lemma LuaEvent_Inr_history:
  assumes "LuaEvent rt name h = Inr h'" and "luaState h = Some lua"
  shows "\<exists>lua' ev. luaState h' = Some lua' \<and> history lua' = history lua @ ev
           \<and> (ev = [] \<or> (\<exists>fn. ev = [Invoke fn []]))"
  using assms
  by (auto simp: LuaEvent_def LogError_def call_function_def CheckResult_snd
      split: option.splits if_splits)

text \<open>
  \<open>LuaInitialize\<close> is the three steps in sequence, on the state \<open>boot_state\<close>: the
  interpreter state is \<open>boot_vm\<close> and the record of calls is \<open>boot_calls\<close>.
\<close>

lemma LuaInitialize_steps:
  "LuaInitialize rt fs dbg h =
     (case RunScript rt fs ''lua/init.lua'' (h\<lparr>luaState := Some (boot_state rt dbg)\<rparr>) of
        Inl e \<Rightarrow> Inl e
      | Inr h1 \<Rightarrow>
          (case RunScript rt fs ''lua/user.lua'' h1 of
             Inl e \<Rightarrow> Inl e
           | Inr h2 \<Rightarrow> LuaEvent rt ''OnGameBoot'' h2))"
  by (simp add: LuaInitialize_def Let_def boot_state_def boot_vm_def boot_calls_def
      new_state_def open_libraries_def set_globals_def create_named_table_def)

lemma sample_boot_absent:
  "LuaInitialize sample_runtime (assets_of []) dbg fresh_host
     = Inr \<lparr>luaState = Some \<lparr>vm = [], history = boot_calls dbg\<rparr>,
            logged = [(Error, ''Events.OnGameBoot.Trigger is not a function'')]\<rparr>"
  by (simp add: LuaInitialize_def RunScript_def LuaEvent_def assets_of_def fresh_host_def
      sample_runtime_def new_state_def open_libraries_def set_globals_def
      create_named_table_def boot_calls_def traverse_get_def sample_traverse_def LogError_def)

lemma sample_boot_files:
  "LuaInitialize sample_runtime boot_files dbg fresh_host
     = Inr \<lparr>luaState = Some \<lparr>vm = [(''OnGameBoot'', LFunction 1)],
              history = boot_calls dbg @
                [SafeScript ''Events = { OnGameBoot = { Trigger = function() end } }'',
                 SafeScript ''return nil+1'', Invoke (LFunction 1) []]\<rparr>,
            logged = [(Error, ''Lua error: '' @ nil_arithmetic)]\<rparr>"
  by (simp add: LuaInitialize_def RunScript_def LuaEvent_def assets_of_def fresh_host_def
      boot_files_def sample_runtime_def new_state_def open_libraries_def set_globals_def
      safe_script_def sample_script_def create_named_table_def boot_calls_def traverse_get_def
      sample_traverse_def LogError_def CheckResult_snd valid_def error_text_def
      is_protected_function_def call_function_def sample_call_def)

lemma boot_files_init:
  "script_source boot_files ''lua/init.lua''
     = Some ''Events = { OnGameBoot = { Trigger = function() end } }''"
  by (simp add: script_source_def boot_files_def assets_of_def)

lemma boot_files_user: "script_source boot_files ''lua/user.lua'' = Some ''return nil+1''"
  by (simp add: script_source_def boot_files_def assets_of_def)

text \<open>
  C8, as the code has it. \<open>LuaInitialize\<close> builds a new runtime, opens the libraries and
  installs the bindings (\<open>boot_state\<close>), runs \<open>RunScript\<close> on \<open>lua/init.lua\<close>, then on
  \<open>lua/user.lua\<close> in the state the first left, then \<open>LuaEvent\<close> on \<open>OnGameBoot\<close> in the
  state the second left; the record of calls shows that order. A script that is not
  found or not read changes nothing and logs nothing; one whose execution fails adds one
  error entry; in either case the next step runs. The three hypotheses say that the
  executions \<open>LuaInitialize\<close> makes return: the first script on \<open>boot_vm\<close>, the second on
  the state the first left, the handler found there on the state the second left.
\<close>

theorem LuaInitialize_boot_order:
  assumes init_returns:
      "\<forall>src. script_source fs ''lua/init.lua'' = Some src
             \<longrightarrow> rt_script rt src (boot_vm rt debug_build) \<noteq> None"
    and user_returns:
      "\<forall>src h1 lua1.
          RunScript rt fs ''lua/init.lua'' (h\<lparr>luaState := Some (boot_state rt debug_build)\<rparr>) = Inr h1
          \<and> luaState h1 = Some lua1 \<and> script_source fs ''lua/user.lua'' = Some src
        \<longrightarrow> rt_script rt src (vm lua1) \<noteq> None"
    and handler_returns:
      "\<forall>h1 h2 lua2 fn.
          RunScript rt fs ''lua/init.lua'' (h\<lparr>luaState := Some (boot_state rt debug_build)\<rparr>) = Inr h1
          \<and> RunScript rt fs ''lua/user.lua'' h1 = Inr h2 \<and> luaState h2 = Some lua2
          \<and> traverse_get rt lua2 [''Events'', ''OnGameBoot'', ''Trigger''] = Some fn
          \<and> is_protected_function rt lua2 fn
        \<longrightarrow> rt_call rt fn [] (vm lua2) \<noteq> None"
  shows "\<exists>h1 lua1 h2 h3 lua3 ev es1 es2 es3.
      RunScript rt fs ''lua/init.lua'' (h\<lparr>luaState := Some (boot_state rt debug_build)\<rparr>) = Inr h1
    \<and> RunScript rt fs ''lua/user.lua'' h1 = Inr h2
    \<and> LuaEvent rt ''OnGameBoot'' h2 = Inr h3
    \<and> LuaInitialize rt fs debug_build h = Inr h3
    \<and> luaState h3 = Some lua3
    \<and> history lua3 = boot_calls debug_build @ script_calls fs ''lua/init.lua''
                        @ script_calls fs ''lua/user.lua'' @ ev
    \<and> (ev = [] \<or> (\<exists>fn. ev = [Invoke fn []]))
    \<and> logged h3 = logged h @ es1 @ es2 @ es3
    \<and> (script_source fs ''lua/init.lua'' = None
          \<longrightarrow> h1 = h\<lparr>luaState := Some (boot_state rt debug_build)\<rparr>)
    \<and> (script_source fs ''lua/user.lua'' = None \<longrightarrow> h2 = h1)
    \<and> (\<forall>src r l. script_source fs ''lua/init.lua'' = Some src
           \<and> safe_script rt src (boot_state rt debug_build) = Some (r, l) \<and> \<not> valid r
         \<longrightarrow> es1 = [(Error, error_text r)])
    \<and> luaState h1 = Some lua1
    \<and> (\<forall>src r l. script_source fs ''lua/user.lua'' = Some src
           \<and> safe_script rt src lua1 = Some (r, l) \<and> \<not> valid r \<longrightarrow> es2 = [(Error, error_text r)])"
proof -
  let ?lua0 = "boot_state rt debug_build"
  let ?h0 = "h\<lparr>luaState := Some ?lua0\<rparr>"
  have s0: "luaState ?h0 = Some ?lua0" by simp
  have b: "history ?lua0 = boot_calls debug_build" by (simp add: boot_state_def)
  have t1: "\<forall>src. script_source fs ''lua/init.lua'' = Some src
              \<longrightarrow> rt_script rt src (vm ?lua0) \<noteq> None"
    using init_returns by (simp add: boot_state_def)
  from RunScript_returns [OF s0 t1] obtain h1 lua1 es1
    where r1: "RunScript rt fs ''lua/init.lua'' ?h0 = Inr h1"
      and l1: "luaState h1 = Some lua1"
      and c1: "history lua1 = history ?lua0 @ script_calls fs ''lua/init.lua''"
      and g1: "logged h1 = logged ?h0 @ es1"
      and n1: "script_source fs ''lua/init.lua'' = None \<longrightarrow> h1 = ?h0"
      and f1: "\<forall>src r l. script_source fs ''lua/init.lua'' = Some src
                 \<and> safe_script rt src ?lua0 = Some (r, l) \<and> \<not> valid r
               \<longrightarrow> es1 = [(Error, error_text r)]"
    by (elim exE conjE) (rule that)
  have t2: "\<forall>src. script_source fs ''lua/user.lua'' = Some src
              \<longrightarrow> rt_script rt src (vm lua1) \<noteq> None"
    using user_returns r1 l1 by blast
  from RunScript_returns [OF l1 t2] obtain h2 lua2 es2
    where r2: "RunScript rt fs ''lua/user.lua'' h1 = Inr h2"
      and l2: "luaState h2 = Some lua2"
      and c2: "history lua2 = history lua1 @ script_calls fs ''lua/user.lua''"
      and g2: "logged h2 = logged h1 @ es2"
      and n2: "script_source fs ''lua/user.lua'' = None \<longrightarrow> h2 = h1"
      and f2: "\<forall>src r l. script_source fs ''lua/user.lua'' = Some src
                 \<and> safe_script rt src lua1 = Some (r, l) \<and> \<not> valid r \<longrightarrow> es2 = [(Error, error_text r)]"
    by (elim exE conjE) (rule that)
  have t3: "\<forall>fn. traverse_get rt lua2 [''Events'', ''OnGameBoot'', ''Trigger''] = Some fn
               \<and> is_protected_function rt lua2 fn \<longrightarrow> rt_call rt fn [] (vm lua2) \<noteq> None"
    using handler_returns r1 r2 l2 by blast
  from LuaEvent_returns [OF l2 t3] obtain h3 lua3 ev es3
    where r3: "LuaEvent rt ''OnGameBoot'' h2 = Inr h3"
      and l3: "luaState h3 = Some lua3"
      and c3: "history lua3 = history lua2 @ ev"
      and e3: "ev = [] \<or> (\<exists>fn. ev = [Invoke fn []])"
      and g3: "logged h3 = logged h2 @ es3"
    by (elim exE conjE) (rule that)
  have init: "LuaInitialize rt fs debug_build h = Inr h3"
    by (simp add: LuaInitialize_steps r1 r2 r3)
  have hist: "history lua3 = boot_calls debug_build @ script_calls fs ''lua/init.lua''
                        @ script_calls fs ''lua/user.lua'' @ ev"
    by (simp add: c3 c2 c1 b)
  have log: "logged h3 = logged h @ es1 @ es2 @ es3"
    by (simp add: g3 g2 g1)
  show ?thesis
    apply (rule exI [of _ h1], rule exI [of _ lua1], rule exI [of _ h2],
        rule exI [of _ h3], rule exI [of _ lua3], rule exI [of _ ev], rule exI [of _ es1],
        rule exI [of _ es2], rule exI [of _ es3])
    using r1 r2 r3 init l3 hist e3 log n1 n2 f1 l1 f2 by (intro conjI)
qed

theorem LuaInitialize_boot_order_witness:
  "LuaInitialize sample_runtime boot_files False fresh_host
       = Inr \<lparr>luaState = Some \<lparr>vm = [(''OnGameBoot'', LFunction 1)],
                history = boot_calls False @
                  [SafeScript ''Events = { OnGameBoot = { Trigger = function() end } }'',
                   SafeScript ''return nil+1'', Invoke (LFunction 1) []]\<rparr>,
              logged = [(Error, ''Lua error: '' @ nil_arithmetic)]\<rparr>
   \<and> (\<exists>h1 h2 h3 lua3 ev.
         RunScript sample_runtime boot_files ''lua/init.lua''
           (fresh_host\<lparr>luaState := Some (boot_state sample_runtime False)\<rparr>) = Inr h1
       \<and> RunScript sample_runtime boot_files ''lua/user.lua'' h1 = Inr h2
       \<and> LuaEvent sample_runtime ''OnGameBoot'' h2 = Inr h3
       \<and> LuaInitialize sample_runtime boot_files False fresh_host = Inr h3
       \<and> luaState h3 = Some lua3
       \<and> history lua3 = boot_calls False @ script_calls boot_files ''lua/init.lua''
                           @ script_calls boot_files ''lua/user.lua'' @ ev)"
proof -
  have a: "\<forall>src. script_source boot_files ''lua/init.lua'' = Some src
             \<longrightarrow> rt_script sample_runtime src (boot_vm sample_runtime False) \<noteq> None"
    by (simp add: boot_files_init sample_runtime_def sample_script_def)
  have b: "\<forall>src h1 lua1.
          RunScript sample_runtime boot_files ''lua/init.lua''
            (fresh_host\<lparr>luaState := Some (boot_state sample_runtime False)\<rparr>) = Inr h1
          \<and> luaState h1 = Some lua1 \<and> script_source boot_files ''lua/user.lua'' = Some src
        \<longrightarrow> rt_script sample_runtime src (vm lua1) \<noteq> None"
    by (simp add: boot_files_user sample_runtime_def sample_script_def)
  have c: "\<forall>h1 h2 lua2 fn.
          RunScript sample_runtime boot_files ''lua/init.lua''
            (fresh_host\<lparr>luaState := Some (boot_state sample_runtime False)\<rparr>) = Inr h1
          \<and> RunScript sample_runtime boot_files ''lua/user.lua'' h1 = Inr h2
          \<and> luaState h2 = Some lua2
          \<and> traverse_get sample_runtime lua2 [''Events'', ''OnGameBoot'', ''Trigger''] = Some fn
          \<and> is_protected_function sample_runtime lua2 fn
        \<longrightarrow> rt_call sample_runtime fn [] (vm lua2) \<noteq> None"
    by (simp add: sample_runtime_def sample_call_def)
  from LuaInitialize_boot_order [OF a b c]
  have "\<exists>h1 h2 h3 lua3 ev.
         RunScript sample_runtime boot_files ''lua/init.lua''
           (fresh_host\<lparr>luaState := Some (boot_state sample_runtime False)\<rparr>) = Inr h1
       \<and> RunScript sample_runtime boot_files ''lua/user.lua'' h1 = Inr h2
       \<and> LuaEvent sample_runtime ''OnGameBoot'' h2 = Inr h3
       \<and> LuaInitialize sample_runtime boot_files False fresh_host = Inr h3
       \<and> luaState h3 = Some lua3
       \<and> history lua3 = boot_calls False @ script_calls boot_files ''lua/init.lua''
                           @ script_calls boot_files ''lua/user.lua'' @ ev"
    by (elim exE conjE) (intro exI conjI)
  with sample_boot_files [of False] show ?thesis by (intro conjI)
qed

text \<open>
  A bootstrap script that is not found is not logged: with both absent, the only entry
  after \<open>LuaInitialize\<close> is the dispatcher's, for the handler nobody registered.
\<close>

theorem LuaInitialize_missing_scripts_silent:
  "\<not> ref_ok (FindAsset (assets_of []) ''lua/init.lua'')
   \<and> \<not> ref_ok (FindAsset (assets_of []) ''lua/user.lua'')
   \<and> LuaInitialize sample_runtime (assets_of []) False fresh_host
       = Inr \<lparr>luaState = Some \<lparr>vm = [], history = boot_calls False\<rparr>,
              logged = [(Error, ''Events.OnGameBoot.Trigger is not a function'')]\<rparr>"
  by (simp add: sample_boot_absent) (simp add: assets_of_def)

text \<open>What an observer of the interpreter state sees after the libraries are opened in turn.\<close>

lemma exposed_fold:
  assumes "\<forall>l v. exposed (rt_open rt l v) = insert l (exposed v)"
  shows "exposed (fold (rt_open rt) libs v) = set libs \<union> exposed v"
  using assms by (induction libs arbitrary: v) auto

lemma library_boot:
  "LuaInitialize library_runtime (assets_of []) True \<lparr>luaState = None, logged = []\<rparr>
     = Inr \<lparr>luaState = Some
              \<lparr>vm = [Lib_base, Lib_package, Lib_coroutine, Lib_table, Lib_string, Lib_math,
                     Lib_utf8, Lib_debug],
               history = boot_calls True\<rparr>,
            logged = [(Error, ''Events.OnGameBoot.Trigger is not a function'')]\<rparr>"
  by (simp add: LuaInitialize_def RunScript_def LuaEvent_def assets_of_def
      library_runtime_def new_state_def open_libraries_def set_globals_def
      create_named_table_def boot_calls_def traverse_get_def LogError_def)

text \<open>
  C9. The interpreter state in which \<open>LuaInitialize\<close> loads the first script is a new
  state on which exactly base, package, coroutine, table, string, math and utf8 have been
  opened, in that order, followed by debug exactly in a debug build, and then the two
  globals and the named table set; no other library is opened on it. The rest of
  \<open>LuaInitialize\<close> is the two script loads and the event, and when it returns, the record
  of calls holds those openings and no other: os, io, bit32, ffi and jit are never
  opened. For every way \<open>exposed\<close> of reading off an interpreter state the set of
  libraries scripts can reach, such that a new state exposes none, opening a library adds
  that library, and setting a global or a table adds nothing, the state the scripts
  start in exposes exactly the libraries listed.
\<close>

theorem LuaInitialize_libraries:
  "\<exists>lua0.
      vm lua0 =
        rt_named_table rt ''devilutionx''
          [(''log'', Module ''LuaLogModule''),
           (''render'', Module ''LuaRenderModule''),
           (''message'', NativeFunction ''EventPlrMsg'')]
          (rt_set rt ''_VERSION'' (Macro ''LUA_VERSION'')
            (rt_set rt ''print'' (NativeFunction ''LuaPrint'')
              (fold (rt_open rt)
                 ([Lib_base, Lib_package, Lib_coroutine, Lib_table, Lib_string, Lib_math, Lib_utf8]
                  @ (if debug_build then [Lib_debug] else []))
                 (rt_new rt (NativeFunction ''LuaPanic'')))))
    \<and> opened_libraries (history lua0) =
        [Lib_base, Lib_package, Lib_coroutine, Lib_table, Lib_string, Lib_math, Lib_utf8]
        @ (if debug_build then [Lib_debug] else [])
    \<and> LuaInitialize rt fs debug_build h =
        (case RunScript rt fs ''lua/init.lua'' (h\<lparr>luaState := Some lua0\<rparr>) of
           Inl e \<Rightarrow> Inl e
         | Inr h1 \<Rightarrow>
             (case RunScript rt fs ''lua/user.lua'' h1 of
                Inl e \<Rightarrow> Inl e
              | Inr h2 \<Rightarrow> LuaEvent rt ''OnGameBoot'' h2))
    \<and> (\<forall>h'. LuaInitialize rt fs debug_build h = Inr h' \<longrightarrow>
          (\<exists>lua. luaState h' = Some lua
             \<and> opened_libraries (history lua) =
                 [Lib_base, Lib_package, Lib_coroutine, Lib_table, Lib_string, Lib_math, Lib_utf8]
                 @ (if debug_build then [Lib_debug] else [])
             \<and> set (opened_libraries (history lua))
                 \<inter> {Lib_os, Lib_io, Lib_bit32, Lib_ffi, Lib_jit} = {}
             \<and> (Lib_debug \<in> set (opened_libraries (history lua)) \<longleftrightarrow> debug_build)))
    \<and> (\<forall>exposed.
          (\<forall>p. exposed (rt_new rt p) = {})
          \<and> (\<forall>l v. exposed (rt_open rt l v) = insert l (exposed v))
          \<and> (\<forall>k b v. exposed (rt_set rt k b v) = exposed v)
          \<and> (\<forall>n kvs v. exposed (rt_named_table rt n kvs v) = exposed v)
        \<longrightarrow> exposed (vm lua0) =
              {Lib_base, Lib_package, Lib_coroutine, Lib_table, Lib_string, Lib_math, Lib_utf8}
              \<union> (if debug_build then {Lib_debug} else {}))"
proof -
  let ?lua0 = "boot_state rt debug_build"
  let ?libs = "[Lib_base, Lib_package, Lib_coroutine, Lib_table, Lib_string, Lib_math, Lib_utf8]
               @ (if debug_build then [Lib_debug] else [])"
  have pin: "vm ?lua0 =
        rt_named_table rt ''devilutionx''
          [(''log'', Module ''LuaLogModule''),
           (''render'', Module ''LuaRenderModule''),
           (''message'', NativeFunction ''EventPlrMsg'')]
          (rt_set rt ''_VERSION'' (Macro ''LUA_VERSION'')
            (rt_set rt ''print'' (NativeFunction ''LuaPrint'')
              (fold (rt_open rt) ?libs (rt_new rt (NativeFunction ''LuaPanic'')))))"
    by (simp add: boot_state_def boot_vm_def)
  have b: "history ?lua0 = boot_calls debug_build" by (simp add: boot_state_def)
  have opened0: "opened_libraries (history ?lua0) = ?libs"
    by (simp add: b opened_boot)
  have final: "\<exists>lua. luaState h' = Some lua
             \<and> opened_libraries (history lua) = ?libs
             \<and> set (opened_libraries (history lua))
                 \<inter> {Lib_os, Lib_io, Lib_bit32, Lib_ffi, Lib_jit} = {}
             \<and> (Lib_debug \<in> set (opened_libraries (history lua)) \<longleftrightarrow> debug_build)"
    if ret: "LuaInitialize rt fs debug_build h = Inr h'" for h'
  proof -
    from ret obtain h1 h2
      where r1: "RunScript rt fs ''lua/init.lua'' (h\<lparr>luaState := Some ?lua0\<rparr>) = Inr h1"
        and r2: "RunScript rt fs ''lua/user.lua'' h1 = Inr h2"
        and r3: "LuaEvent rt ''OnGameBoot'' h2 = Inr h'"
      by (auto simp: LuaInitialize_steps split: sum.splits)
    from RunScript_Inr_history [OF r1] obtain lua1
      where l1: "luaState h1 = Some lua1"
        "history lua1 = history ?lua0 @ script_calls fs ''lua/init.lua''"
      by auto
    from RunScript_Inr_history [OF r2 l1(1)] obtain lua2
      where l2: "luaState h2 = Some lua2"
        "history lua2 = history lua1 @ script_calls fs ''lua/user.lua''"
      by auto
    from LuaEvent_Inr_history [OF r3 l2(1)] obtain lua3 ev
      where l3: "luaState h' = Some lua3" "history lua3 = history lua2 @ ev"
        "ev = [] \<or> (\<exists>fn. ev = [Invoke fn []])"
      by auto
    have "opened_libraries ev = []" using l3(3) by auto
    then have "opened_libraries (history lua3) = ?libs"
      by (simp add: l3(2) l2(2) l1(2) b opened_libraries_append opened_script_calls opened_boot)
    then show ?thesis using l3(1) by auto
  qed
  have seen: "exposed (vm ?lua0) =
              {Lib_base, Lib_package, Lib_coroutine, Lib_table, Lib_string, Lib_math, Lib_utf8}
              \<union> (if debug_build then {Lib_debug} else {})"
    if ob: "(\<forall>p. exposed (rt_new rt p) = {})
          \<and> (\<forall>l v. exposed (rt_open rt l v) = insert l (exposed v))
          \<and> (\<forall>k b v. exposed (rt_set rt k b v) = exposed v)
          \<and> (\<forall>n kvs v. exposed (rt_named_table rt n kvs v) = exposed v)"
    for exposed :: "'a \<Rightarrow> lua_lib set"
  proof -
    from ob have o: "\<forall>l v. exposed (rt_open rt l v) = insert l (exposed v)" by blast
    have "exposed (vm ?lua0)
            = exposed (fold (rt_open rt) ?libs (rt_new rt (NativeFunction ''LuaPanic'')))"
      using ob by (simp only: pin)
    also have "\<dots> = set ?libs \<union> exposed (rt_new rt (NativeFunction ''LuaPanic''))"
      by (rule exposed_fold [OF o])
    also have "\<dots> = set ?libs" using ob by simp
    finally show ?thesis by auto
  qed
  show ?thesis
    apply (rule exI [of _ ?lua0])
    apply (intro conjI allI impI)
        apply (rule pin)
       apply (rule opened0)
      apply (rule LuaInitialize_steps)
     apply (erule final)
    apply (erule seen)
    done
qed

theorem LuaInitialize_libraries_witness:
  "LuaInitialize library_runtime (assets_of []) True \<lparr>luaState = None, logged = []\<rparr>
     = Inr \<lparr>luaState = Some
              \<lparr>vm = [Lib_base, Lib_package, Lib_coroutine, Lib_table, Lib_string, Lib_math,
                     Lib_utf8, Lib_debug],
               history = boot_calls True\<rparr>,
            logged = [(Error, ''Events.OnGameBoot.Trigger is not a function'')]\<rparr>
   \<and> (\<exists>lua0 :: lua_lib list sol_state.
         vm lua0 = [Lib_base, Lib_package, Lib_coroutine, Lib_table, Lib_string, Lib_math,
                    Lib_utf8, Lib_debug]
       \<and> set (vm lua0) = {Lib_base, Lib_package, Lib_coroutine, Lib_table, Lib_string,
                           Lib_math, Lib_utf8, Lib_debug}
       \<and> opened_libraries (history lua0)
           = [Lib_base, Lib_package, Lib_coroutine, Lib_table, Lib_string, Lib_math,
              Lib_utf8, Lib_debug])"
proof -
  from LuaInitialize_libraries [of library_runtime True "assets_of []"
      "\<lparr>luaState = None, logged = []\<rparr>"]
  obtain lua0 :: "lua_lib list sol_state" where pin0: "vm lua0 =
        rt_named_table library_runtime ''devilutionx''
          [(''log'', Module ''LuaLogModule''),
           (''render'', Module ''LuaRenderModule''),
           (''message'', NativeFunction ''EventPlrMsg'')]
          (rt_set library_runtime ''_VERSION'' (Macro ''LUA_VERSION'')
            (rt_set library_runtime ''print'' (NativeFunction ''LuaPrint'')
              (fold (rt_open library_runtime)
                 ([Lib_base, Lib_package, Lib_coroutine, Lib_table, Lib_string, Lib_math, Lib_utf8]
                  @ (if True then [Lib_debug] else []))
                 (rt_new library_runtime (NativeFunction ''LuaPanic'')))))"
    and opened0: "opened_libraries (history lua0) =
        [Lib_base, Lib_package, Lib_coroutine, Lib_table, Lib_string, Lib_math, Lib_utf8]
        @ (if True then [Lib_debug] else [])"
    and seen: "\<forall>exposed.
          (\<forall>p. exposed (rt_new library_runtime p) = {})
          \<and> (\<forall>l v. exposed (rt_open library_runtime l v) = insert l (exposed v))
          \<and> (\<forall>k b v. exposed (rt_set library_runtime k b v) = exposed v)
          \<and> (\<forall>n kvs v. exposed (rt_named_table library_runtime n kvs v) = exposed v)
        \<longrightarrow> exposed (vm lua0) =
              {Lib_base, Lib_package, Lib_coroutine, Lib_table, Lib_string, Lib_math, Lib_utf8}
              \<union> (if True then {Lib_debug} else {})"
    by (elim exE conjE) (rule that)
  have pin: "vm lua0 = [Lib_base, Lib_package, Lib_coroutine, Lib_table,
        Lib_string, Lib_math, Lib_utf8, Lib_debug]"
    using pin0 by (simp add: library_runtime_def)
  have opened: "opened_libraries (history lua0)
           = [Lib_base, Lib_package, Lib_coroutine, Lib_table, Lib_string, Lib_math,
              Lib_utf8, Lib_debug]"
    using opened0 by simp
  have hyp: "(\<forall>p. set (rt_new library_runtime p) = {})
          \<and> (\<forall>l v. set (rt_open library_runtime l v) = insert l (set v))
          \<and> (\<forall>k b v. set (rt_set library_runtime k b v) = set v)
          \<and> (\<forall>n kvs v. set (rt_named_table library_runtime n kvs v) = set v)"
    by (simp add: library_runtime_def)
  from seen [THEN spec, of set, THEN mp, OF hyp]
  have exposed: "set (vm lua0) = {Lib_base, Lib_package, Lib_coroutine, Lib_table, Lib_string,
                           Lib_math, Lib_utf8, Lib_debug}"
    by auto
  have "\<exists>lua0 :: lua_lib list sol_state.
         vm lua0 = [Lib_base, Lib_package, Lib_coroutine, Lib_table, Lib_string, Lib_math,
                    Lib_utf8, Lib_debug]
       \<and> set (vm lua0) = {Lib_base, Lib_package, Lib_coroutine, Lib_table, Lib_string,
                           Lib_math, Lib_utf8, Lib_debug}
       \<and> opened_libraries (history lua0)
           = [Lib_base, Lib_package, Lib_coroutine, Lib_table, Lib_string, Lib_math,
              Lib_utf8, Lib_debug]"
    by (rule exI [of _ lua0], intro conjI) (rule pin, rule exposed, rule opened)
  with library_boot show ?thesis by (intro conjI)
qed

end
